theory Spec2Isabelle
  imports Main "HOL-Library.Word"
begin

unbundle bit_operations_syntax

section \<open>The SIP request distributor (res_pjsip/pjsip_distributor.c)\<close>

text \<open>
  A shallow embedding of the distributor, endpoint identifier and authenticator modules.
  Every function of the source that a property below talks about is a HOL function of the
  same name.  The collaborators the source only calls (the PJSIP library, the taskprocessor
  and threadpool layer, sorcery, the security-event reports) are fields of an environment
  record, and what a hook does to the outside world is the list of events it returns.
  Debug logging (\<open>ast_debug\<close>) and the acquisition and release of the dialog and
  transaction locks are not part of the event lists.
\<close>

subsection \<open>Platform parameters\<close>

text \<open>
  The source leaves two things to the C implementation: whether plain \<open>char\<close> is signed
  (it is on x86, it is not on ARM Linux) and the width of \<open>size_t\<close>.  \<open>int\<close> is 32 bits
  wide, in two's complement, and its arithmetic wraps around.
\<close>

record platform =
  char_signed :: bool
  size_t_bits :: nat

definition lp64 :: platform where
  "lp64 = \<lparr>char_signed = True, size_t_bits = 64\<rparr>"

definition ilp32 :: platform where
  "ilp32 = \<lparr>char_signed = True, size_t_bits = 32\<rparr>"

text \<open>The integer promotion of \<open>*pos\<close>, a \<open>const char\<close>, to \<open>int\<close>.\<close>

definition char_to_int :: "platform \<Rightarrow> char \<Rightarrow> 32 word" where
  "char_to_int pf c =
     (if char_signed pf then scast (of_char c :: 8 word) else ucast (of_char c :: 8 word))"

text \<open>\<open>abs\<close> on a 32-bit \<open>int\<close>: the negation of \<open>INT_MIN\<close> wraps around to \<open>INT_MIN\<close>.\<close>

definition abs_int :: "32 word \<Rightarrow> 32 word" where
  "abs_int j = (if sint j < 0 then - j else j)"

text \<open>
  The conversion of an \<open>int\<close> to \<open>size_t\<close>, which the usual arithmetic conversions apply
  to the left operand of \<open>hash % ARRAY_LEN(distributor_pool)\<close>: the value modulo
  \<open>2 ^ size_t_bits\<close>.
\<close>

definition to_size_t :: "platform \<Rightarrow> 32 word \<Rightarrow> int" where
  "to_size_t pf j = sint j mod 2 ^ size_t_bits pf"

subsection \<open>Hashing\<close>

definition DISTRIBUTOR_POOL_SIZE :: nat where
  "DISTRIBUTOR_POOL_SIZE = 31"

text \<open>
  \<open>while (len--) { hash = hash * 33 ^ *pos++; }\<close> over the \<open>len\<close> bytes of a
  \<open>pj_str_t\<close>.
\<close>

fun pjstr_hash_add :: "platform \<Rightarrow> string \<Rightarrow> 32 word \<Rightarrow> 32 word" where
  "pjstr_hash_add pf [] hash = hash"
| "pjstr_hash_add pf (c # pos) hash = pjstr_hash_add pf pos (hash * 33 XOR char_to_int pf c)"

definition pjstr_hash :: "platform \<Rightarrow> string \<Rightarrow> 32 word" where
  "pjstr_hash pf str = pjstr_hash_add pf str 5381"

text \<open>
  The index expression of \<open>ast_sip_get_distributor_serializer\<close>: the hash of the Call-ID,
  continued over the remote tag, through \<open>abs\<close>, modulo the length of the pool.
\<close>

definition distributor_pool_index :: "platform \<Rightarrow> string \<Rightarrow> string \<Rightarrow> nat" where
  "distributor_pool_index pf cid_id remote_tag =
     (let hash = pjstr_hash pf cid_id;
          hash = pjstr_hash_add pf remote_tag hash;
          hash = abs_int hash
      in nat (to_size_t pf hash mod int DISTRIBUTOR_POOL_SIZE))"

text \<open>
  The hash as the specification words it: \<open>h0 = 5381\<close> and \<open>h = h * 33 XOR c\<close> for each
  byte \<open>c\<close> of the Call-ID, then of the tag, a byte being its value from 0 to 255; the
  bucket is the absolute value of the hash modulo the pool size.
\<close>

definition djb2_spec :: "string \<Rightarrow> string \<Rightarrow> 32 word" where
  "djb2_spec call_id tag = foldl (\<lambda>h c. h * 33 XOR of_char c) 5381 (call_id @ tag)"

definition spec_bucket :: "string \<Rightarrow> string \<Rightarrow> nat" where
  "spec_bucket call_id tag = nat \<bar>sint (djb2_spec call_id tag)\<bar> mod DISTRIBUTOR_POOL_SIZE"

text \<open>
  The same formula read on the machine, in one pass over the Call-ID followed by the tag:
  a byte is what C's promotion of a \<open>char\<close> makes of it, \<open>abs\<close> is that of \<open>int\<close> and
  the remainder is taken in \<open>size_t\<close>.
\<close>

definition djb2_machine :: "platform \<Rightarrow> string \<Rightarrow> string \<Rightarrow> 32 word" where
  "djb2_machine pf call_id tag =
     foldl (\<lambda>h c. h * 33 XOR char_to_int pf c) 5381 (call_id @ tag)"

definition machine_bucket :: "platform \<Rightarrow> string \<Rightarrow> string \<Rightarrow> nat" where
  "machine_bucket pf call_id tag =
     nat (to_size_t pf (abs_int (djb2_machine pf call_id tag)) mod int DISTRIBUTOR_POOL_SIZE)"

subsection \<open>Data model\<close>

datatype pjsip_method_e =
    PJSIP_INVITE_METHOD
  | PJSIP_CANCEL_METHOD
  | PJSIP_ACK_METHOD
  | PJSIP_BYE_METHOD
  | PJSIP_REGISTER_METHOD
  | PJSIP_OPTIONS_METHOD
  | PJSIP_OTHER_METHOD

datatype pjsip_role_e = PJSIP_ROLE_UAC | PJSIP_ROLE_UAS

text \<open>
  \<open>msg->type\<close> together with the union \<open>msg->line\<close>: a request line with its method, or
  a status line with its code.
\<close>

datatype pjsip_msg_line = Req_line pjsip_method_e | Status_line nat

datatype pjsip_uri = Sip_uri string | Sips_uri string | Other_uri

text \<open>A taskprocessor (serializer) is known by its name; an endpoint is a sorcery object
  or the artificial endpoint, which exists from before the modules are registered until
  after they are unregistered.\<close>

datatype ast_taskprocessor = Taskprocessor (ast_taskprocessor_name: string)

datatype ast_sip_endpoint = Sorcery_endpoint string | Artificial_endpoint

datatype ast_sip_check_auth_result =
    AST_SIP_AUTHENTICATION_CHALLENGE
  | AST_SIP_AUTHENTICATION_SUCCESS
  | AST_SIP_AUTHENTICATION_FAILED
  | AST_SIP_AUTHENTICATION_ERROR

datatype sip_module = Distributor_mod | Endpoint_mod | Auth_mod

record distributor_dialog_data =
  serializer :: "ast_taskprocessor option"
  endpoint :: "ast_sip_endpoint option"

text \<open>
  Of a dialog: the slot \<open>mod_data[distributor_mod.id]\<close> and the number of records this
  module has allocated from \<open>dlg->pool\<close>.  Of a transmit buffer: the slot
  \<open>mod_data[distributor_mod.id]\<close> (a C string or null) and the sizes of the blocks this
  module has allocated from \<open>tdata->pool\<close>.
\<close>

record pjsip_dialog =
  dlg_mod_data :: "distributor_dialog_data option"
  dlg_pool_allocs :: nat

record pjsip_tx_data =
  tx_mod_data :: "string option"
  tx_pool_allocs :: "nat list"

record pjsip_transaction =
  last_tx :: "pjsip_tx_data option"
  tsx_dlg :: "pjsip_dialog option"

text \<open>
  A receive buffer: the parsed message (always present when the library calls a module),
  the Call-ID, the tags of From and To, the method of CSeq, the URI of From, and the slot
  \<open>endpt_info.mod_data[endpoint_mod.id]\<close>.
\<close>

record pjsip_rx_data =
  msg_line :: pjsip_msg_line
  cid_id :: string
  from_tag :: string
  to_tag :: string
  cseq_method :: pjsip_method_e
  from_uri :: pjsip_uri
  endpt_mod_data :: "ast_sip_endpoint option"

text \<open>
  The local variable \<open>clone\<close> of \<open>distributor\<close>: what \<open>pjsip_rx_data_clone\<close> stored
  through \<open>&clone\<close>, or still uninitialised when the library call failed.
\<close>

datatype rx_ptr = Cloned pjsip_rx_data | Uninitialised

datatype event =
    Ast_log_error
  | Taskprocessor_ref ast_taskprocessor
  | Taskprocessor_unreference ast_taskprocessor
  | Ao2_ref ast_sip_endpoint
  | Ao2_cleanup ast_sip_endpoint
  | Respond_stateless nat
  | Invalid_clone_access
  | Push_task "ast_taskprocessor option" rx_ptr
  | Rx_data_free_cloned rx_ptr
  | Log_unidentified_request
  | Report_invalid_endpoint string
  | Endpt_create_response nat
  | Endpt_send_response2
  | Tx_data_dec_ref
  | Report_auth_challenge_sent
  | Report_auth_success
  | Report_auth_failed_challenge_response
  | Assert_failed
  | Endpt_process_rx_data sip_module nat

text \<open>
  The collaborators.  \<open>tsx_layer_find_tsx\<close> stands for \<open>pjsip_tsx_create_key\<close> followed
  by \<open>pjsip_tsx_layer_find_tsx\<close>; \<open>taskprocessor_get\<close> for \<open>ast_taskprocessor_get\<close>
  with \<open>TPS_REF_IF_EXISTS\<close>; \<open>sip_push_task\<close> returns non-zero when the task could not be
  queued; \<open>endpt_process_rx_data\<close> returns the \<open>handled\<close> flag and the buffer as the
  modules of the pipeline left it.
\<close>

record env =
  plat :: platform
  fully_booted :: bool
  ua_find_dialog :: "string \<Rightarrow> string \<Rightarrow> string \<Rightarrow> pjsip_dialog option"
  tsx_layer_find_tsx :: "pjsip_role_e \<Rightarrow> pjsip_method_e \<Rightarrow> pjsip_rx_data \<Rightarrow> pjsip_transaction option"
  taskprocessor_get :: "string \<Rightarrow> ast_taskprocessor option"
  taskprocessor_alert_get :: nat
  distributor_pool :: "nat \<Rightarrow> ast_taskprocessor option"
  rx_data_clone :: "pjsip_rx_data \<Rightarrow> pjsip_rx_data option"
  sip_push_task :: "ast_taskprocessor option \<Rightarrow> rx_ptr \<Rightarrow> int"
  threadpool_serializer_get_current :: "ast_taskprocessor option"
  sip_identify_endpoint :: "pjsip_rx_data \<Rightarrow> ast_sip_endpoint option"
  sip_requires_authentication :: "ast_sip_endpoint option \<Rightarrow> pjsip_rx_data \<Rightarrow> bool"
  sip_check_authentication :: "ast_sip_endpoint option \<Rightarrow> pjsip_rx_data \<Rightarrow> ast_sip_check_auth_result"
  endpt_process_rx_data :: "pjsip_rx_data \<Rightarrow> bool \<times> pjsip_rx_data"

subsection \<open>Helpers of the Asterisk headers\<close>

text \<open>
  Modelled from the spec: the helpers below are macros and inline functions of headers
  that are not among the sources (\<open>asterisk/strings.h\<close>, \<open>asterisk/astobj2.h\<close>,
  \<open>asterisk/taskprocessor.h\<close>, \<open>asterisk/uuid.h\<close>).  "If present and non-empty":
  \<open>ast_strlen_zero\<close> holds of a null pointer and of the empty string.  References are
  "bumped" and "released": \<open>ao2_bump\<close> adds a reference to a non-null object and returns
  it, \<open>ao2_cleanup\<close> and \<open>ast_taskprocessor_unreference\<close> release a reference unless the
  pointer is null.  \<open>ast_copy_pj_str\<close> copies at most \<open>size - 1\<close> bytes into the
  \<open>name\<close> buffer of \<open>AST_UUID_STR_LEN\<close> bytes, and the report reads the buffer as a C
  string; no property below depends on that length.
\<close>

definition ast_strlen_zero :: "string option \<Rightarrow> bool" where
  "ast_strlen_zero s = (case s of None \<Rightarrow> True | Some str \<Rightarrow> str = [])"

definition ao2_bump_tps :: "ast_taskprocessor option \<Rightarrow> event list" where
  "ao2_bump_tps obj = (case obj of None \<Rightarrow> [] | Some s \<Rightarrow> [Taskprocessor_ref s])"

definition ast_taskprocessor_unreference :: "ast_taskprocessor option \<Rightarrow> event list" where
  "ast_taskprocessor_unreference tps =
     (case tps of None \<Rightarrow> [] | Some s \<Rightarrow> [Taskprocessor_unreference s])"

definition ao2_bump :: "ast_sip_endpoint option \<Rightarrow> event list" where
  "ao2_bump obj = (case obj of None \<Rightarrow> [] | Some e \<Rightarrow> [Ao2_ref e])"

definition ao2_cleanup :: "ast_sip_endpoint option \<Rightarrow> event list" where
  "ao2_cleanup obj = (case obj of None \<Rightarrow> [] | Some e \<Rightarrow> [Ao2_cleanup e])"

definition AST_UUID_STR_LEN :: nat where
  "AST_UUID_STR_LEN = 37"

definition ast_copy_pj_str :: "string \<Rightarrow> nat \<Rightarrow> string" where
  "ast_copy_pj_str src sz = take (sz - 1) src"

text \<open>A \<open>char\<close> buffer read as a C string ends before its first zero byte.\<close>

definition c_string :: "string \<Rightarrow> string" where
  "c_string buf = takeWhile (\<lambda>c. c \<noteq> CHR 0x00) buf"

definition PJ_SUCCESS :: int where
  "PJ_SUCCESS = 0"

definition PJ_TRUE :: bool where
  "PJ_TRUE = True"

definition PJ_FALSE :: bool where
  "PJ_FALSE = False"

definition is_request_msg :: "pjsip_rx_data \<Rightarrow> bool" where
  "is_request_msg rdata = (case msg_line rdata of Req_line m \<Rightarrow> True | Status_line c \<Rightarrow> False)"

text \<open>\<open>line.req.method.id == id\<close>, read where the message is a request.\<close>

definition req_method_is :: "pjsip_rx_data \<Rightarrow> pjsip_method_e \<Rightarrow> bool" where
  "req_method_is rdata m = (msg_line rdata = Req_line m)"

subsection \<open>Outbound: recording the serializer name\<close>

text \<open>
  \<open>strcmp\<close> of two C strings is non-zero exactly when they differ; the new name takes
  \<open>strlen(name) + 1\<close> bytes of the buffer's pool.
\<close>

definition record_serializer :: "env \<Rightarrow> pjsip_tx_data \<Rightarrow> pjsip_tx_data \<times> int" where
  "record_serializer env tdata =
     (case threadpool_serializer_get_current env of
        None \<Rightarrow> (tdata, PJ_SUCCESS)
      | Some current \<Rightarrow>
          (let name = ast_taskprocessor_name current
           in if \<not> ast_strlen_zero (Some name)
                 \<and> (case tx_mod_data tdata of None \<Rightarrow> True | Some stored \<Rightarrow> stored \<noteq> name)
              then (tdata\<lparr>tx_pool_allocs := tx_pool_allocs tdata @ [length name + 1],
                          tx_mod_data := Some name\<rparr>, PJ_SUCCESS)
              else (tdata, PJ_SUCCESS)))"

subsection \<open>Finding the serializer of a response's request\<close>

definition find_request_serializer ::
  "env \<Rightarrow> pjsip_rx_data \<Rightarrow> event list \<times> ast_taskprocessor option" where
  "find_request_serializer env rdata =
     (case tsx_layer_find_tsx env PJSIP_ROLE_UAC (cseq_method rdata) rdata of
        None \<Rightarrow> ([], None)
      | Some tsx \<Rightarrow>
          (case last_tx tsx of
             None \<Rightarrow> ([], None)
           | Some tdata \<Rightarrow>
               (let serializer_name = tx_mod_data tdata
                in if \<not> ast_strlen_zero serializer_name
                   then (case serializer_name of
                           None \<Rightarrow> ([], None)
                         | Some name \<Rightarrow>
                             (let found = taskprocessor_get env name
                              in (ao2_bump_tps found, found)))
                   else ([], None))))"

subsection \<open>The dialog annotation\<close>




definition ast_sip_dialog_get_endpoint ::
  "pjsip_dialog \<Rightarrow> event list \<times> ast_sip_endpoint option" where
  "ast_sip_dialog_get_endpoint dlg =
     (case dlg_mod_data dlg of
        None \<Rightarrow> ([], None)
      | Some dist \<Rightarrow>
          (case endpoint dist of
             None \<Rightarrow> ([], None)
           | Some e \<Rightarrow> ([Ao2_ref e], Some e)))"

subsection \<open>Finding the dialog of a message\<close>

text \<open>
  \<open>pjsip_method_cmp\<close> against \<open>pjsip_cancel_method\<close> or \<open>pjsip_bye_method\<close> is zero
  exactly when the method id is the same.
\<close>

definition find_dialog :: "env \<Rightarrow> pjsip_rx_data \<Rightarrow> event list \<times> pjsip_dialog option" where
  "find_dialog env rdata =
     (let (local_tag, remote_tag) =
            (if is_request_msg rdata then (to_tag rdata, from_tag rdata)
             else (from_tag rdata, to_tag rdata))
      in if \<not> is_request_msg rdata
            \<or> \<not> req_method_is rdata PJSIP_CANCEL_METHOD
            \<or> length (to_tag rdata) \<noteq> 0
         then ([], ua_find_dialog env (cid_id rdata) local_tag remote_tag)
         else (case tsx_layer_find_tsx env PJSIP_ROLE_UAS PJSIP_INVITE_METHOD rdata of
                 None \<Rightarrow> ([Ast_log_error], None)
               | Some tsx \<Rightarrow> ([], tsx_dlg tsx)))"

subsection \<open>The pool serializer of a message\<close>

definition ast_sip_get_distributor_serializer ::
  "env \<Rightarrow> pjsip_rx_data \<Rightarrow> event list \<times> ast_taskprocessor option" where
  "ast_sip_get_distributor_serializer env rdata =
     (let remote_tag = (if is_request_msg rdata then from_tag rdata else to_tag rdata);
          chosen = distributor_pool env
                     (distributor_pool_index (plat env) (cid_id rdata) remote_tag)
      in (ao2_bump_tps chosen, chosen))"

subsection \<open>The distributor hook\<close>

text \<open>
  Accesses through \<open>clone\<close>.  The source does not look at the status of
  \<open>pjsip_rx_data_clone\<close>, so the store to and the load from
  \<open>clone->endpt_info.mod_data[endpoint_mod.id]\<close> go through whatever the variable holds;
  through an uninitialised pointer they are recorded as \<open>Invalid_clone_access\<close>.
\<close>

definition clone_store_endpoint :: "rx_ptr \<Rightarrow> ast_sip_endpoint option \<Rightarrow> event list \<times> rx_ptr" where
  "clone_store_endpoint clone e =
     (case clone of
        Cloned c \<Rightarrow> ([], Cloned (c\<lparr>endpt_mod_data := e\<rparr>))
      | Uninitialised \<Rightarrow> ([Invalid_clone_access], Uninitialised))"

definition clone_load_endpoint :: "rx_ptr \<Rightarrow> event list \<times> ast_sip_endpoint option" where
  "clone_load_endpoint clone =
     (case clone of
        Cloned c \<Rightarrow> ([], endpt_mod_data c)
      | Uninitialised \<Rightarrow> ([Invalid_clone_access], None))"

text \<open>Lines 413 to 424 of \<open>distributor\<close>: clone, attach the endpoint, push, release.\<close>

definition distributor_push ::
  "env \<Rightarrow> pjsip_rx_data \<Rightarrow> distributor_dialog_data option \<Rightarrow> ast_taskprocessor option
     \<Rightarrow> event list" where
  "distributor_push env rdata dist target =
     (let clone = (case rx_data_clone env rdata of None \<Rightarrow> Uninitialised | Some c \<Rightarrow> Cloned c);
          (ev_attach, clone) =
            (case dist of
               None \<Rightarrow> ([], clone)
             | Some d \<Rightarrow>
                 (let (ev_store, clone') = clone_store_endpoint clone (endpoint d)
                  in (ao2_bump (endpoint d) @ ev_store, clone')));
          ev_push =
            (if sip_push_task env target clone \<noteq> 0
             then (let (ev_load, e) = clone_load_endpoint clone
                   in [Push_task target clone] @ ev_load @ ao2_cleanup e
                      @ [Rx_data_free_cloned clone])
             else [Push_task target clone])
      in ev_attach @ ev_push @ ast_taskprocessor_unreference target)"

definition distributor :: "env \<Rightarrow> pjsip_rx_data \<Rightarrow> event list \<times> bool" where
  "distributor env rdata =
     (if \<not> fully_booted env then ([], PJ_TRUE)
      else
        (let (ev_dlg, dlg) = find_dialog env rdata;
             dist = (case dlg of None \<Rightarrow> None | Some d \<Rightarrow> dlg_mod_data d);
             dlg_serializer = (case dist of None \<Rightarrow> None | Some d \<Rightarrow> serializer d);
             ev = ev_dlg @ ao2_bump_tps dlg_serializer
         in if dlg_serializer \<noteq> None
            then (ev @ distributor_push env rdata dist dlg_serializer, PJ_TRUE)
            else if \<not> is_request_msg rdata
            then (let (ev_tsx, tsx_serializer) = find_request_serializer env rdata
                  in if tsx_serializer = None
                     then (if taskprocessor_alert_get env \<noteq> 0
                           then (ev @ ev_tsx, PJ_TRUE)
                           else (let (ev_pool, pool_serializer) =
                                       ast_sip_get_distributor_serializer env rdata
                                 in (ev @ ev_tsx @ ev_pool
                                       @ distributor_push env rdata dist pool_serializer,
                                     PJ_TRUE)))
                     else (ev @ ev_tsx @ distributor_push env rdata dist tsx_serializer,
                           PJ_TRUE))
            else if req_method_is rdata PJSIP_CANCEL_METHOD
                    \<or> req_method_is rdata PJSIP_BYE_METHOD
            then (ev @ [Respond_stateless 481], PJ_TRUE)
            else if taskprocessor_alert_get env \<noteq> 0
            then (ev, PJ_TRUE)
            else (let (ev_pool, pool_serializer) = ast_sip_get_distributor_serializer env rdata
                  in (ev @ ev_pool @ distributor_push env rdata dist pool_serializer,
                      PJ_TRUE))))"

subsection \<open>The endpoint identifier\<close>

definition endpoint_lookup :: "env \<Rightarrow> pjsip_rx_data \<Rightarrow> event list \<times> pjsip_rx_data \<times> bool" where
  "endpoint_lookup env rdata =
     (let is_ack = req_method_is rdata PJSIP_ACK_METHOD
      in case endpt_mod_data rdata of
           Some attached \<Rightarrow> ([], rdata, PJ_FALSE)
         | None \<Rightarrow>
             (let identified = sip_identify_endpoint env rdata
              in if identified = None \<and> \<not> is_ack
                 then (let name = (case from_uri rdata of
                                     Sip_uri user \<Rightarrow>
                                       c_string (ast_copy_pj_str user AST_UUID_STR_LEN)
                                   | Sips_uri user \<Rightarrow>
                                       c_string (ast_copy_pj_str user AST_UUID_STR_LEN)
                                   | Other_uri \<Rightarrow> [])
                       in ([Ao2_ref Artificial_endpoint, Log_unidentified_request,
                            Report_invalid_endpoint name],
                           rdata\<lparr>endpt_mod_data := Some Artificial_endpoint\<rparr>, PJ_FALSE))
                 else ([], rdata\<lparr>endpt_mod_data := identified\<rparr>, PJ_FALSE)))"

subsection \<open>The authenticator\<close>

definition ast_pjsip_rdata_get_endpoint ::
  "pjsip_rx_data \<Rightarrow> event list \<times> ast_sip_endpoint option" where
  "ast_pjsip_rdata_get_endpoint rdata =
     (case endpt_mod_data rdata of
        None \<Rightarrow> ([], None)
      | Some e \<Rightarrow> ([Ao2_ref e], Some e))"

text \<open>
  \<open>RAII_VAR\<close> releases the reference when the function returns, on every path.
  \<open>Assert_failed\<close> marks a run in which the condition of \<open>ast_assert\<close> is false.
\<close>

definition authenticate :: "env \<Rightarrow> pjsip_rx_data \<Rightarrow> event list \<times> bool" where
  "authenticate env rdata =
     (let (ev_get, ep) = ast_pjsip_rdata_get_endpoint rdata;
          is_ack = req_method_is rdata PJSIP_ACK_METHOD;
          ev = ev_get @ (if ep \<noteq> None then [] else [Assert_failed])
      in if \<not> is_ack \<and> sip_requires_authentication env ep rdata
         then (case sip_check_authentication env ep rdata of
                 AST_SIP_AUTHENTICATION_CHALLENGE \<Rightarrow>
                   (ev @ [Endpt_create_response 401, Report_auth_challenge_sent,
                          Endpt_send_response2] @ ao2_cleanup ep, PJ_TRUE)
               | AST_SIP_AUTHENTICATION_SUCCESS \<Rightarrow>
                   (ev @ [Endpt_create_response 401, Report_auth_success,
                          Tx_data_dec_ref] @ ao2_cleanup ep, PJ_FALSE)
               | AST_SIP_AUTHENTICATION_FAILED \<Rightarrow>
                   (ev @ [Endpt_create_response 401, Report_auth_failed_challenge_response,
                          Endpt_send_response2] @ ao2_cleanup ep, PJ_TRUE)
               | AST_SIP_AUTHENTICATION_ERROR \<Rightarrow>
                   (ev @ [Endpt_create_response 401, Report_auth_failed_challenge_response,
                          Tx_data_dec_ref, Respond_stateless 500] @ ao2_cleanup ep, PJ_TRUE))
         else (ev @ ao2_cleanup ep, PJ_FALSE))"

subsection \<open>The distribute task\<close>

definition distribute :: "env \<Rightarrow> pjsip_rx_data \<Rightarrow> event list \<times> int" where
  "distribute env rdata =
     (let is_request = is_request_msg rdata;
          is_ack = (if is_request then req_method_is rdata PJSIP_ACK_METHOD else False);
          (handled, rdata') = endpt_process_rx_data env rdata
      in ([Endpt_process_rx_data Distributor_mod 1]
          @ (if \<not> handled \<and> is_request \<and> \<not> is_ack then [Respond_stateless 501] else [])
          @ ao2_cleanup (endpt_mod_data rdata')
          @ [Rx_data_free_cloned (Cloned rdata')], 0))"

subsection \<open>What a run did\<close>

text \<open>
  Projections of an event list: the serializers a distribute task was pushed to, the codes
  of the stateless responses, everything put on the wire, and the steps the authenticator
  takes on a request (building, sending and discarding a response, and its reports).
\<close>

definition push_target :: "event \<Rightarrow> ast_taskprocessor option list" where
  "push_target e = (case e of Push_task target clone \<Rightarrow> [target] | _ \<Rightarrow> [])"

definition push_targets :: "event list \<Rightarrow> ast_taskprocessor option list" where
  "push_targets evs = concat (map push_target evs)"

definition stateless_code :: "event \<Rightarrow> nat list" where
  "stateless_code e = (case e of Respond_stateless code \<Rightarrow> [code] | _ \<Rightarrow> [])"

definition stateless_codes :: "event list \<Rightarrow> nat list" where
  "stateless_codes evs = concat (map stateless_code evs)"

definition is_transmission :: "event \<Rightarrow> bool" where
  "is_transmission e =
     (case e of Respond_stateless code \<Rightarrow> True | Endpt_send_response2 \<Rightarrow> True | _ \<Rightarrow> False)"

definition transmissions :: "event list \<Rightarrow> event list" where
  "transmissions evs = filter is_transmission evs"

definition is_auth_action :: "event \<Rightarrow> bool" where
  "is_auth_action e =
     (case e of
        Respond_stateless code \<Rightarrow> True
      | Endpt_create_response code \<Rightarrow> True
      | Endpt_send_response2 \<Rightarrow> True
      | Tx_data_dec_ref \<Rightarrow> True
      | Report_auth_challenge_sent \<Rightarrow> True
      | Report_auth_success \<Rightarrow> True
      | Report_auth_failed_challenge_response \<Rightarrow> True
      | _ \<Rightarrow> False)"

definition auth_actions :: "event list \<Rightarrow> event list" where
  "auth_actions evs = filter is_auth_action evs"

subsection \<open>The decision procedure as the specification words it\<close>

text \<open>
  Seven clauses in order, the first that yields a result wins.  A clause yields a
  serializer to dispatch to, a silent drop, or the stateless 481.
\<close>

datatype resolution = Dispatch_to "ast_taskprocessor option" | Silent_drop | Reply_481

fun first_clause :: "'a option list \<Rightarrow> 'a option" where
  "first_clause [] = None"
| "first_clause (None # clauses) = first_clause clauses"
| "first_clause (Some r # clauses) = Some r"

text \<open>
  Clause 1, the dialog of a message: for a response, and for a request other than a CANCEL
  without to-tag, the library's lookup on (Call-ID, local tag, remote tag), the local tag
  being To for a request and From for a response; for a CANCEL without to-tag the dialog of
  the INVITE server transaction.  The clause yields the serializer of that dialog's
  annotation.
\<close>

definition spec_find_dialog :: "env \<Rightarrow> pjsip_rx_data \<Rightarrow> pjsip_dialog option" where
  "spec_find_dialog env rdata =
     (case msg_line rdata of
        Status_line code \<Rightarrow>
          ua_find_dialog env (cid_id rdata) (from_tag rdata) (to_tag rdata)
      | Req_line method \<Rightarrow>
          if method = PJSIP_CANCEL_METHOD \<and> to_tag rdata = []
          then (case tsx_layer_find_tsx env PJSIP_ROLE_UAS PJSIP_INVITE_METHOD rdata of
                  None \<Rightarrow> None
                | Some tsx \<Rightarrow> tsx_dlg tsx)
          else ua_find_dialog env (cid_id rdata) (to_tag rdata) (from_tag rdata))"

definition dialog_annotation_serializer ::
  "env \<Rightarrow> pjsip_rx_data \<Rightarrow> ast_taskprocessor option" where
  "dialog_annotation_serializer env rdata =
     (case spec_find_dialog env rdata of
        None \<Rightarrow> None
      | Some dlg \<Rightarrow> (case dlg_mod_data dlg of None \<Rightarrow> None | Some dist \<Rightarrow> serializer dist))"

text \<open>
  Clause 2: the client transaction keyed by the method of the response's CSeq; the name on
  its last transmitted request, if there is one and it is not empty; the serializer that
  exists by that name.
\<close>

definition transaction_serializer :: "env \<Rightarrow> pjsip_rx_data \<Rightarrow> ast_taskprocessor option" where
  "transaction_serializer env rdata =
     (case tsx_layer_find_tsx env PJSIP_ROLE_UAC (cseq_method rdata) rdata of
        None \<Rightarrow> None
      | Some tsx \<Rightarrow>
          (case last_tx tsx of
             None \<Rightarrow> None
           | Some request \<Rightarrow>
               (case tx_mod_data request of
                  None \<Rightarrow> None
                | Some name \<Rightarrow> if name = [] then None else taskprocessor_get env name)))"

definition overload_alert :: "env \<Rightarrow> bool" where
  "overload_alert env = (taskprocessor_alert_get env \<noteq> 0)"

text \<open>Clauses 4 and 7: the pool entry at the bucket of the hash of (Call-ID, tag).\<close>

definition pool_serializer :: "env \<Rightarrow> string \<Rightarrow> string \<Rightarrow> ast_taskprocessor option" where
  "pool_serializer env call_id tag =
     distributor_pool env (machine_bucket (plat env) call_id tag)"

definition spec_clauses :: "env \<Rightarrow> pjsip_rx_data \<Rightarrow> resolution option list" where
  "spec_clauses env rdata =
     [map_option (\<lambda>s. Dispatch_to (Some s)) (dialog_annotation_serializer env rdata),
      if \<not> is_request_msg rdata
      then map_option (\<lambda>s. Dispatch_to (Some s)) (transaction_serializer env rdata) else None,
      if \<not> is_request_msg rdata \<and> overload_alert env then Some Silent_drop else None,
      if \<not> is_request_msg rdata
      then Some (Dispatch_to (pool_serializer env (cid_id rdata) (to_tag rdata))) else None,
      if req_method_is rdata PJSIP_BYE_METHOD \<or> req_method_is rdata PJSIP_CANCEL_METHOD
      then Some Reply_481 else None,
      if overload_alert env then Some Silent_drop else None,
      Some (Dispatch_to (pool_serializer env (cid_id rdata) (from_tag rdata)))]"

definition spec_resolution :: "env \<Rightarrow> pjsip_rx_data \<Rightarrow> resolution option" where
  "spec_resolution env rdata = first_clause (spec_clauses env rdata)"

text \<open>What a resolution looks like in the events of a run of the hook.\<close>

definition resolved_as :: "event list \<Rightarrow> resolution \<Rightarrow> bool" where
  "resolved_as evs r =
     (case r of
        Dispatch_to target \<Rightarrow> push_targets evs = [target] \<and> stateless_codes evs = []
      | Silent_drop \<Rightarrow> push_targets evs = [] \<and> stateless_codes evs = []
      | Reply_481 \<Rightarrow> push_targets evs = [] \<and> stateless_codes evs = [481])"

text \<open>
  The two fields of a dialog's annotation as a reader sees them: null when the dialog has
  no annotation, as in \<open>ast_sip_dialog_get_endpoint\<close> and in \<open>distributor\<close>.
\<close>

definition dlg_serializer :: "pjsip_dialog \<Rightarrow> ast_taskprocessor option" where
  "dlg_serializer dlg = (case dlg_mod_data dlg of None \<Rightarrow> None | Some dist \<Rightarrow> serializer dist)"




subsection \<open>Example inputs\<close>

text \<open>
  A booted, idle system that knows no dialog, no transaction and no endpoint; its pool
  holds 31 serializers named by a letter; the artificial endpoint requires authentication
  and the verifier answers with a challenge.
\<close>

definition example_pool :: "nat \<Rightarrow> ast_taskprocessor option" where
  "example_pool idx =
     (if idx < DISTRIBUTOR_POOL_SIZE
      then Some (Taskprocessor (''pjsip/distributor-'' @ [char_of (65 + idx)]))
      else None)"

definition env_idle :: env where
  "env_idle =
     \<lparr>plat = lp64,
      fully_booted = True,
      ua_find_dialog = (\<lambda>call_id local_tag remote_tag. None),
      tsx_layer_find_tsx = (\<lambda>role method rdata. None),
      taskprocessor_get = (\<lambda>name. None),
      taskprocessor_alert_get = 0,
      distributor_pool = example_pool,
      rx_data_clone = (\<lambda>rdata. Some rdata),
      sip_push_task = (\<lambda>target clone. 0),
      threadpool_serializer_get_current = Some (Taskprocessor ''wrk-7''),
      sip_identify_endpoint = (\<lambda>rdata. None),
      sip_requires_authentication = (\<lambda>ep rdata. ep = Some Artificial_endpoint),
      sip_check_authentication = (\<lambda>ep rdata. AST_SIP_AUTHENTICATION_CHALLENGE),
      endpt_process_rx_data = (\<lambda>rdata. (False, rdata))\<rparr>"

definition env_overload :: env where
  "env_overload = env_idle\<lparr>taskprocessor_alert_get := 1\<rparr>"

text \<open>A dialog annotated with a serializer and an endpoint, found for every message, in a
  system where the library cannot clone a receive buffer.\<close>

definition dlg_annotated :: pjsip_dialog where
  "dlg_annotated =
     \<lparr>dlg_mod_data = Some \<lparr>serializer = Some (Taskprocessor ''pjsip/session''),
                            endpoint = Some (Sorcery_endpoint ''alice'')\<rparr>,
      dlg_pool_allocs = 1\<rparr>"

definition env_clone_fails :: env where
  "env_clone_fails =
     env_idle\<lparr>ua_find_dialog := (\<lambda>call_id local_tag remote_tag. Some dlg_annotated),
              rx_data_clone := (\<lambda>rdata. None)\<rparr>"

definition invite_ax :: pjsip_rx_data where
  "invite_ax =
     \<lparr>msg_line = Req_line PJSIP_INVITE_METHOD, cid_id = ''a@x'', from_tag = ''f1'',
      to_tag = [], cseq_method = PJSIP_INVITE_METHOD, from_uri = Sip_uri ''mallory'',
      endpt_mod_data = None\<rparr>"

definition bye_unknown :: pjsip_rx_data where
  "bye_unknown =
     \<lparr>msg_line = Req_line PJSIP_BYE_METHOD, cid_id = ''nonexistent'', from_tag = ''f2'',
      to_tag = ''t2'', cseq_method = PJSIP_BYE_METHOD, from_uri = Sip_uri ''mallory'',
      endpt_mod_data = None\<rparr>"

definition ack_unknown :: pjsip_rx_data where
  "ack_unknown =
     \<lparr>msg_line = Req_line PJSIP_ACK_METHOD, cid_id = ''a@x'', from_tag = ''f1'',
      to_tag = ''t1'', cseq_method = PJSIP_ACK_METHOD, from_uri = Sip_uri ''mallory'',
      endpt_mod_data = None\<rparr>"

definition invite_in_dialog :: pjsip_rx_data where
  "invite_in_dialog =
     \<lparr>msg_line = Req_line PJSIP_INVITE_METHOD, cid_id = ''c@y'', from_tag = ''f3'',
      to_tag = ''t3'', cseq_method = PJSIP_INVITE_METHOD, from_uri = Sip_uri ''alice'',
      endpt_mod_data = None\<rparr>"

definition options_cloned :: pjsip_rx_data where
  "options_cloned =
     \<lparr>msg_line = Req_line PJSIP_OPTIONS_METHOD, cid_id = ''c@y'', from_tag = ''f3'',
      to_tag = ''t3'', cseq_method = PJSIP_OPTIONS_METHOD, from_uri = Sip_uri ''alice'',
      endpt_mod_data = Some (Sorcery_endpoint ''alice'')\<rparr>"

definition ok_unmatched :: pjsip_rx_data where
  "ok_unmatched =
     \<lparr>msg_line = Status_line 200, cid_id = ''stale@z'', from_tag = ''f4'',
      to_tag = ''t4'', cseq_method = PJSIP_INVITE_METHOD, from_uri = Sip_uri ''asterisk'',
      endpt_mod_data = None\<rparr>"

definition tdata_fresh :: pjsip_tx_data where
  "tdata_fresh = \<lparr>tx_mod_data = None, tx_pool_allocs = []\<rparr>"

definition tdata_recorded :: pjsip_tx_data where
  "tdata_recorded = \<lparr>tx_mod_data = Some ''wrk-7'', tx_pool_allocs = [6]\<rparr>"

text \<open>
  A system with one dialog, annotated, and one client transaction whose INVITE was sent
  from the serializer \<open>wrk-7\<close>, which still exists.
\<close>

definition tsx_invite_sent :: pjsip_transaction where
  "tsx_invite_sent = \<lparr>last_tx = Some tdata_recorded, tsx_dlg = None\<rparr>"

definition env_busy :: env where
  "env_busy =
     env_idle\<lparr>ua_find_dialog :=
                (\<lambda>call_id local_tag remote_tag.
                   if call_id = ''c@y'' \<and> local_tag = ''t3'' \<and> remote_tag = ''f3''
                   then Some dlg_annotated else None),
              tsx_layer_find_tsx :=
                (\<lambda>role method rdata.
                   if role = PJSIP_ROLE_UAC \<and> method = PJSIP_INVITE_METHOD
                      \<and> cid_id rdata = ''q@w''
                   then Some tsx_invite_sent else None),
              taskprocessor_get :=
                (\<lambda>name. if name = ''wrk-7'' then Some (Taskprocessor ''wrk-7'') else None)\<rparr>"

definition ok_to_invite :: pjsip_rx_data where
  "ok_to_invite =
     \<lparr>msg_line = Status_line 200, cid_id = ''q@w'', from_tag = ''f5'',
      to_tag = ''t5'', cseq_method = PJSIP_INVITE_METHOD, from_uri = Sip_uri ''asterisk'',
      endpt_mod_data = None\<rparr>"

definition ringing_unmatched :: pjsip_rx_data where
  "ringing_unmatched =
     \<lparr>msg_line = Status_line 180, cid_id = ''r@v'', from_tag = ''f6'',
      to_tag = ''u7'', cseq_method = PJSIP_INVITE_METHOD, from_uri = Sip_uri ''asterisk'',
      endpt_mod_data = None\<rparr>"

section \<open>Properties\<close>

subsection \<open>Projections of the helpers\<close>

lemma push_targets_append [simp]: "push_targets (xs @ ys) = push_targets xs @ push_targets ys"
  by (simp add: push_targets_def)

lemma stateless_codes_append [simp]:
  "stateless_codes (xs @ ys) = stateless_codes xs @ stateless_codes ys"
  by (simp add: stateless_codes_def)

lemma transmissions_append [simp]:
  "transmissions (xs @ ys) = transmissions xs @ transmissions ys"
  by (simp add: transmissions_def)

lemma projections_Nil [simp]:
  "push_targets [] = []" "stateless_codes [] = []" "transmissions [] = []"
  by (simp_all add: push_targets_def stateless_codes_def transmissions_def)

lemma projections_Cons [simp]:
  "push_targets (e # evs) = push_target e @ push_targets evs"
  "stateless_codes (e # evs) = stateless_code e @ stateless_codes evs"
  "transmissions (e # evs) = (if is_transmission e then e # transmissions evs else transmissions evs)"
  by (simp_all add: push_targets_def stateless_codes_def transmissions_def)

lemma quiet_ao2_bump_tps [simp]:
  "push_targets (ao2_bump_tps s) = []" "stateless_codes (ao2_bump_tps s) = []"
  "transmissions (ao2_bump_tps s) = []"
  by (simp_all add: ao2_bump_tps_def push_target_def stateless_code_def is_transmission_def
      split: option.splits)

lemma quiet_unreference [simp]:
  "push_targets (ast_taskprocessor_unreference s) = []"
  "stateless_codes (ast_taskprocessor_unreference s) = []"
  "transmissions (ast_taskprocessor_unreference s) = []"
  by (simp_all add: ast_taskprocessor_unreference_def push_target_def stateless_code_def
      is_transmission_def split: option.splits)

lemma quiet_ao2_bump [simp]:
  "push_targets (ao2_bump e) = []" "stateless_codes (ao2_bump e) = []"
  "transmissions (ao2_bump e) = []"
  by (simp_all add: ao2_bump_def push_target_def stateless_code_def is_transmission_def
      split: option.splits)

lemma quiet_ao2_cleanup [simp]:
  "push_targets (ao2_cleanup e) = []" "stateless_codes (ao2_cleanup e) = []"
  "transmissions (ao2_cleanup e) = []"
  by (simp_all add: ao2_cleanup_def push_target_def stateless_code_def is_transmission_def
      split: option.splits)

lemma quiet_clone_store [simp]:
  "push_targets (fst (clone_store_endpoint c e)) = []"
  "stateless_codes (fst (clone_store_endpoint c e)) = []"
  "transmissions (fst (clone_store_endpoint c e)) = []"
  by (simp_all add: clone_store_endpoint_def push_target_def stateless_code_def
      is_transmission_def split: rx_ptr.splits)

lemma quiet_clone_load [simp]:
  "push_targets (fst (clone_load_endpoint c)) = []"
  "stateless_codes (fst (clone_load_endpoint c)) = []"
  "transmissions (fst (clone_load_endpoint c)) = []"
  by (simp_all add: clone_load_endpoint_def push_target_def stateless_code_def
      is_transmission_def split: rx_ptr.splits)

lemma quiet_find_dialog [simp]:
  "push_targets (fst (find_dialog env rdata)) = []"
  "stateless_codes (fst (find_dialog env rdata)) = []"
  "transmissions (fst (find_dialog env rdata)) = []"
  by (simp_all add: find_dialog_def push_target_def stateless_code_def is_transmission_def
      case_prod_beta Let_def split: option.splits)

lemma quiet_find_request_serializer [simp]:
  "push_targets (fst (find_request_serializer env rdata)) = []"
  "stateless_codes (fst (find_request_serializer env rdata)) = []"
  "transmissions (fst (find_request_serializer env rdata)) = []"
  by (simp_all add: find_request_serializer_def Let_def split: option.splits)

lemma quiet_get_distributor_serializer [simp]:
  "push_targets (fst (ast_sip_get_distributor_serializer env rdata)) = []"
  "stateless_codes (fst (ast_sip_get_distributor_serializer env rdata)) = []"
  "transmissions (fst (ast_sip_get_distributor_serializer env rdata)) = []"
  by (simp_all add: ast_sip_get_distributor_serializer_def Let_def)

lemma distributor_push_projections [simp]:
  "push_targets (distributor_push env rdata dist target) = [target]"
  "stateless_codes (distributor_push env rdata dist target) = []"
  "transmissions (distributor_push env rdata dist target) = []"
  by (simp_all add: distributor_push_def Let_def case_prod_beta push_target_def
      stateless_code_def is_transmission_def split: option.splits)

lemma snd_get_distributor_serializer:
  "snd (ast_sip_get_distributor_serializer env rdata) =
     distributor_pool env
       (distributor_pool_index (plat env) (cid_id rdata)
          (if is_request_msg rdata then from_tag rdata else to_tag rdata))"
  by (simp add: ast_sip_get_distributor_serializer_def Let_def)

subsection \<open>Hashing\<close>

lemma pjstr_hash_add_foldl:
  "pjstr_hash_add pf str h = foldl (\<lambda>h c. h * 33 XOR char_to_int pf c) h str"
  by (induction str arbitrary: h) simp_all

text \<open>The two calls of the source are one pass over the Call-ID followed by the tag.\<close>

lemma pjstr_hash_djb2_machine:
  "pjstr_hash_add pf tag (pjstr_hash pf call_id) = djb2_machine pf call_id tag"
  by (simp add: pjstr_hash_add_foldl pjstr_hash_def djb2_machine_def)

lemma distributor_pool_index_machine:
  "distributor_pool_index pf call_id tag = machine_bucket pf call_id tag"
  by (simp add: distributor_pool_index_def machine_bucket_def pjstr_hash_djb2_machine Let_def)

text \<open>The index is inside the pool for every Call-ID, every tag and every platform.\<close>

lemma distributor_pool_index_less:
  "distributor_pool_index pf call_id tag < DISTRIBUTOR_POOL_SIZE"
  by (simp add: distributor_pool_index_def Let_def DISTRIBUTOR_POOL_SIZE_def)

text \<open>
  The promotion of a \<open>char\<close> is the value of the byte where \<open>char\<close> is unsigned, and for
  the bytes below 128 where it is signed.
\<close>

lemma ucast_of_char: "(ucast (of_char c :: 8 word) :: 32 word) = of_char c"
proof -
  have "(of_char c :: 8 word) = of_nat (of_char c)"
    by (simp add: of_nat_of_char)
  then have "(ucast (of_char c :: 8 word) :: 32 word) = of_nat (take_bit 8 (of_char c :: nat))"
    by (simp only: unsigned_of_nat) simp
  also have "take_bit 8 (of_char c :: nat) = of_char c"
    by (simp add: take_bit_eq_mod)
  finally show ?thesis
    by (simp add: of_nat_of_char)
qed

lemma scast_of_char:
  assumes "(of_char c :: nat) < 128"
  shows "(scast (of_char c :: 8 word) :: 32 word) = of_char c"
proof -
  have "(of_char c :: 8 word) = of_nat (of_char c)"
    by (simp add: of_nat_of_char)
  then have "(scast (of_char c :: 8 word) :: 32 word)
               = of_int (signed_take_bit 7 (int (of_char c)))"
    by (simp only: signed_of_nat) simp
  also have "signed_take_bit 7 (int (of_char c)) = int (of_char c)"
    using assms by (simp add: signed_take_bit_int_eq_self)
  finally show ?thesis
    by (simp add: of_nat_of_char of_int_of_char)
qed

lemma char_to_int_byte:
  assumes "\<not> char_signed pf \<or> (of_char c :: nat) < 128"
  shows "char_to_int pf c = of_char c"
  using assms by (auto simp add: char_to_int_def ucast_of_char scast_of_char)

lemma djb2_machine_spec:
  assumes "\<not> char_signed pf \<or> (\<forall>c \<in> set (call_id @ tag). (of_char c :: nat) < 128)"
  shows "djb2_machine pf call_id tag = djb2_spec call_id tag"
proof -
  have "foldl (\<lambda>h c. h * 33 XOR char_to_int pf c) h0 cs
          = foldl (\<lambda>h c. h * 33 XOR of_char c) h0 cs"
    if "\<not> char_signed pf \<or> (\<forall>c \<in> set cs. (of_char c :: nat) < 128)" for cs and h0 :: "32 word"
    using that
  proof (induction cs arbitrary: h0)
    case Nil
    show ?case by simp
  next
    case (Cons c cs)
    from Cons.prems have "char_to_int pf c = of_char c"
      by (intro char_to_int_byte) auto
    moreover from Cons.prems
    have "\<not> char_signed pf \<or> (\<forall>c \<in> set cs. (of_char c :: nat) < 128)"
      by auto
    ultimately show ?case
      using Cons.IH by simp
  qed
  with assms show ?thesis
    by (simp add: djb2_machine_def djb2_spec_def)
qed

lemma sint_minus_32:
  fixes j :: "32 word"
  assumes "j \<noteq> 0x80000000"
  shows "sint (- j) = - sint j"
proof -
  have ne: "sint j \<noteq> - (2 ^ 31)"
  proof
    assume "sint j = - (2 ^ 31)"
    then have "word_of_int (sint j) = (word_of_int (- (2 ^ 31)) :: 32 word)" by simp
    then show False using assms by simp
  qed
  have "- (2 ^ 31) \<le> sint j" "sint j < 2 ^ 31"
    using sint_ge [of j] sint_lt [of j] by simp_all
  then have "- (2 ^ 31) \<le> - sint j" "- sint j < 2 ^ 31"
    using ne by simp_all
  then have "signed_take_bit 31 (- sint j) = - sint j"
    by (simp add: signed_take_bit_int_eq_self)
  then show ?thesis
    by (simp add: sint_word_ariths)
qed

lemma sint_abs_int:
  fixes j :: "32 word"
  assumes "j \<noteq> 0x80000000"
  shows "sint (abs_int j) = \<bar>sint j\<bar>"
  using assms by (simp add: abs_int_def sint_minus_32)

text \<open>
  Away from \<open>INT_MIN\<close> the machine's bucket is the absolute value of its hash modulo 31,
  whatever the width of \<open>size_t\<close> from 32 bits on; with a 32-bit \<open>size_t\<close> it is so for
  every hash.
\<close>

lemma machine_bucket_abs:
  assumes "32 \<le> size_t_bits pf" and "djb2_machine pf call_id tag \<noteq> 0x80000000"
  shows "machine_bucket pf call_id tag = nat \<bar>sint (djb2_machine pf call_id tag)\<bar> mod 31"
proof -
  let ?h = "djb2_machine pf call_id tag"
  have lt: "\<bar>sint ?h\<bar> < 2 ^ 32"
    using sint_lt [of ?h] sint_ge [of ?h] by simp
  have "(2::int) ^ 32 \<le> 2 ^ size_t_bits pf"
    using assms(1) by (intro power_increasing) simp_all
  then have "\<bar>sint ?h\<bar> mod 2 ^ size_t_bits pf = \<bar>sint ?h\<bar>"
    using lt by simp
  then show ?thesis
    using assms(2)
    by (simp add: machine_bucket_def to_size_t_def sint_abs_int DISTRIBUTOR_POOL_SIZE_def
        nat_mod_distrib)
qed

lemma machine_bucket_size_t_32:
  assumes "size_t_bits pf = 32"
  shows "machine_bucket pf call_id tag = nat \<bar>sint (djb2_machine pf call_id tag)\<bar> mod 31"
proof (cases "djb2_machine pf call_id tag = 0x80000000")
  case True
  then show ?thesis
    using assms
    by (simp add: machine_bucket_def to_size_t_def abs_int_def DISTRIBUTOR_POOL_SIZE_def)
next
  case False
  then show ?thesis
    using assms machine_bucket_abs [of pf call_id tag] by simp
qed

text \<open>
  The source agrees with the specification's bucket on every Call-ID and tag made of
  bytes below 128 (or of any bytes where \<open>char\<close> is unsigned) whose hash is not
  \<open>INT_MIN\<close>.
\<close>

lemma distributor_pool_index_spec:
  assumes "32 \<le> size_t_bits pf"
    and "\<not> char_signed pf \<or> (\<forall>c \<in> set (call_id @ tag). (of_char c :: nat) < 128)"
    and "djb2_spec call_id tag \<noteq> 0x80000000"
  shows "distributor_pool_index pf call_id tag = spec_bucket call_id tag"
  using assms machine_bucket_abs [of pf call_id tag] djb2_machine_spec [of pf call_id tag]
  by (simp add: distributor_pool_index_machine spec_bucket_def DISTRIBUTOR_POOL_SIZE_def)

text \<open>
  Where \<open>char\<close> is signed a byte from 128 on is promoted with its sign: the Call-ID of the
  one byte 200 falls into bucket 18, its hash by byte value into bucket 11.
\<close>

lemma pool_index_high_byte:
  "distributor_pool_index lp64 [CHR 0xC8] [] = 18 \<and> spec_bucket [CHR 0xC8] [] = 11"
  by (simp add: distributor_pool_index_def pjstr_hash_def djb2_spec_def spec_bucket_def
      lp64_def char_to_int_def abs_int_def to_size_t_def DISTRIBUTOR_POOL_SIZE_def)

text \<open>
  C4: for every Call-ID and tag the bucket of the hash fallback is \<open>abs(h) mod 31\<close>, with
  \<open>h\<close> the wrap-around DJB2 hash of the Call-ID followed by the tag, and lies in
  \<open>[0, 31)\<close>.  The Call-ID \<open>0b2y\<close> with the tag \<open>diq\<close> hashes to \<open>INT_MIN\<close>, whose
  \<open>abs\<close> overflows: with a 64-bit \<open>size_t\<close> the source picks bucket 14, while the
  absolute value of the hash modulo 31 is 2.
\<close>

theorem pool_index_at_int_min:
  "djb2_spec ''0b2y'' ''diq'' = 0x80000000 \<and>
   distributor_pool_index lp64 ''0b2y'' ''diq'' = 14 \<and>
   nat \<bar>sint (djb2_spec ''0b2y'' ''diq'')\<bar> mod 31 = 2"
  by (simp add: distributor_pool_index_def pjstr_hash_def djb2_spec_def lp64_def
      char_to_int_def abs_int_def to_size_t_def DISTRIBUTOR_POOL_SIZE_def)

subsection \<open>The distributor hook\<close>

text \<open>
  The helpers of the hook compute what the clauses of the specification name: the dialog
  of the message, the serializer named on the transaction's last request, the bucket of
  the hash.
\<close>

lemma snd_find_dialog: "snd (find_dialog env rdata) = spec_find_dialog env rdata"
  by (simp add: find_dialog_def spec_find_dialog_def is_request_msg_def req_method_is_def
      case_prod_beta split: pjsip_msg_line.splits option.splits)

lemma snd_find_request_serializer:
  "snd (find_request_serializer env rdata) = transaction_serializer env rdata"
  by (simp add: find_request_serializer_def transaction_serializer_def ast_strlen_zero_def
      ao2_bump_tps_def Let_def split: option.splits)

lemma dialog_annotation_serializer_hook:
  "dialog_annotation_serializer env rdata =
     (case snd (find_dialog env rdata) of
        None \<Rightarrow> None
      | Some dlg \<Rightarrow> (case dlg_mod_data dlg of None \<Rightarrow> None | Some dist \<Rightarrow> serializer dist))"
  by (simp add: dialog_annotation_serializer_def snd_find_dialog)

lemma pool_serializer_hook:
  "pool_serializer env call_id tag =
     distributor_pool env (distributor_pool_index (plat env) call_id tag)"
  by (simp add: pool_serializer_def distributor_pool_index_machine)

text \<open>
  C1: for every inbound message received while fully booted, the hook resolves the target
  by the ordered decision procedure of the specification, the first clause that yields a
  result winning: the dialog annotation's serializer; for a response the serializer named
  on the matched transaction's last request; for a response under overload a silent drop;
  for a response the pool serializer of (Call-ID, to-tag); for BYE and CANCEL a stateless
  481 and no push; for a request under overload a silent drop; else the pool serializer of
  (Call-ID, from-tag).  In every case the hook returns "consumed".  The clauses are stated
  over the library's dialog and transaction lookups, the name on the transaction's last
  request, the lookup of a serializer by name, and one pass of the hash over the Call-ID
  followed by the tag.
\<close>

theorem distributor_resolution:
  assumes "fully_booted env"
  shows "snd (distributor env rdata) = PJ_TRUE \<and>
         (\<exists>r. spec_resolution env rdata = Some r \<and> resolved_as (fst (distributor env rdata)) r)"
  using assms
  by (auto simp add: distributor_def spec_resolution_def spec_clauses_def resolved_as_def
      dialog_annotation_serializer_hook snd_find_request_serializer [symmetric]
      pool_serializer_hook overload_alert_def
      snd_get_distributor_serializer case_prod_beta Let_def PJ_TRUE_def
      push_target_def stateless_code_def req_method_is_def is_request_msg_def
      split: option.splits)

lemma example_buckets:
  "distributor_pool_index lp64 ''a@x'' ''f1'' = 14"
  "distributor_pool_index lp64 ''r@v'' ''u7'' = 6"
  by (simp_all add: distributor_pool_index_def pjstr_hash_def lp64_def char_to_int_def
      abs_int_def to_size_t_def DISTRIBUTOR_POOL_SIZE_def)

lemma example_pool_entries:
  "example_pool 14 = Some (Taskprocessor ''pjsip/distributor-O'')"
  "example_pool 6 = Some (Taskprocessor ''pjsip/distributor-G'')"
  by (simp_all add: example_pool_def DISTRIBUTOR_POOL_SIZE_def char_of_def bit_Suc_0_iff)

theorem distributor_resolution_witness:
  "fully_booted env_busy \<and> fully_booted env_idle \<and> fully_booted env_overload \<and>
   spec_resolution env_busy invite_in_dialog
     = Some (Dispatch_to (Some (Taskprocessor ''pjsip/session''))) \<and>
   push_targets (fst (distributor env_busy invite_in_dialog))
     = [Some (Taskprocessor ''pjsip/session'')] \<and>
   spec_resolution env_busy ok_to_invite = Some (Dispatch_to (Some (Taskprocessor ''wrk-7''))) \<and>
   push_targets (fst (distributor env_busy ok_to_invite)) = [Some (Taskprocessor ''wrk-7'')] \<and>
   spec_resolution env_overload ringing_unmatched = Some Silent_drop \<and>
   push_targets (fst (distributor env_overload ringing_unmatched)) = [] \<and>
   stateless_codes (fst (distributor env_overload ringing_unmatched)) = [] \<and>
   spec_resolution env_idle ringing_unmatched
     = Some (Dispatch_to (Some (Taskprocessor ''pjsip/distributor-G''))) \<and>
   push_targets (fst (distributor env_idle ringing_unmatched))
     = [Some (Taskprocessor ''pjsip/distributor-G'')] \<and>
   spec_resolution env_idle bye_unknown = Some Reply_481 \<and>
   push_targets (fst (distributor env_idle bye_unknown)) = [] \<and>
   stateless_codes (fst (distributor env_idle bye_unknown)) = [481] \<and>
   spec_resolution env_overload invite_ax = Some Silent_drop \<and>
   push_targets (fst (distributor env_overload invite_ax)) = [] \<and>
   stateless_codes (fst (distributor env_overload invite_ax)) = [] \<and>
   spec_resolution env_idle invite_ax
     = Some (Dispatch_to (Some (Taskprocessor ''pjsip/distributor-O''))) \<and>
   push_targets (fst (distributor env_idle invite_ax))
     = [Some (Taskprocessor ''pjsip/distributor-O'')] \<and>
   snd (distributor env_idle invite_ax) = PJ_TRUE"
proof -
  note spec_defs = spec_resolution_def spec_clauses_def dialog_annotation_serializer_def
    spec_find_dialog_def transaction_serializer_def overload_alert_def pool_serializer_hook
    is_request_msg_def req_method_is_def example_buckets example_pool_entries
  have busy: "fully_booted env_busy"
    by (simp add: env_busy_def env_idle_def)
  have idle: "fully_booted env_idle"
    by (simp add: env_idle_def)
  have over: "fully_booted env_overload"
    by (simp add: env_overload_def env_idle_def)
  have c1: "spec_resolution env_busy invite_in_dialog
              = Some (Dispatch_to (Some (Taskprocessor ''pjsip/session'')))"
    by (simp add: spec_defs env_busy_def env_idle_def invite_in_dialog_def dlg_annotated_def)
  have c2: "spec_resolution env_busy ok_to_invite
              = Some (Dispatch_to (Some (Taskprocessor ''wrk-7'')))"
    by (simp add: spec_defs env_busy_def env_idle_def ok_to_invite_def tsx_invite_sent_def
        tdata_recorded_def)
  have c3: "spec_resolution env_overload ringing_unmatched = Some Silent_drop"
    by (simp add: spec_defs env_overload_def env_idle_def ringing_unmatched_def)
  have c4: "spec_resolution env_idle ringing_unmatched
              = Some (Dispatch_to (Some (Taskprocessor ''pjsip/distributor-G'')))"
    by (simp add: spec_defs env_idle_def ringing_unmatched_def)
  have c5: "spec_resolution env_idle bye_unknown = Some Reply_481"
    by (simp add: spec_defs env_idle_def bye_unknown_def)
  have c6: "spec_resolution env_overload invite_ax = Some Silent_drop"
    by (simp add: spec_defs env_overload_def env_idle_def invite_ax_def)
  have c7: "spec_resolution env_idle invite_ax
              = Some (Dispatch_to (Some (Taskprocessor ''pjsip/distributor-O'')))"
    by (simp add: spec_defs env_idle_def invite_ax_def)
  show ?thesis
    using distributor_resolution [OF busy, of invite_in_dialog]
      distributor_resolution [OF busy, of ok_to_invite]
      distributor_resolution [OF over, of ringing_unmatched]
      distributor_resolution [OF idle, of ringing_unmatched]
      distributor_resolution [OF idle, of bye_unknown]
      distributor_resolution [OF over, of invite_ax]
      distributor_resolution [OF idle, of invite_ax]
      busy idle over c1 c2 c3 c4 c5 c6 c7
    by (simp add: resolved_as_def)
qed

text \<open>
  C2 (as amended): whenever the overload flag is set, a message that has no serializer on
  its dialog annotation and, if it is a response, none on its matched transaction is never
  pushed onto a serializer; nothing is transmitted for it, except that a BYE or CANCEL
  request received while fully booted is answered with the stateless 481, which the hook
  sends before it looks at the overload flag.
\<close>

theorem overload_shedding:
  assumes "overload_alert env"
    and "dialog_annotation_serializer env rdata = None"
    and "\<not> is_request_msg rdata \<longrightarrow> transaction_serializer env rdata = None"
  shows "push_targets (fst (distributor env rdata)) = [] \<and>
         transmissions (fst (distributor env rdata)) =
           (if fully_booted env \<and> (req_method_is rdata PJSIP_BYE_METHOD
                                    \<or> req_method_is rdata PJSIP_CANCEL_METHOD)
            then [Respond_stateless 481] else [])"
  using assms
  by (auto simp add: distributor_def dialog_annotation_serializer_hook
      snd_find_request_serializer [symmetric] overload_alert_def case_prod_beta Let_def
      push_target_def is_transmission_def req_method_is_def is_request_msg_def
      split: option.splits)

theorem overload_shedding_witness:
  "overload_alert env_overload \<and>
   dialog_annotation_serializer env_overload ok_unmatched = None \<and>
   \<not> is_request_msg ok_unmatched \<and>
   transaction_serializer env_overload ok_unmatched = None \<and>
   push_targets (fst (distributor env_overload ok_unmatched)) = [] \<and>
   transmissions (fst (distributor env_overload ok_unmatched)) = [] \<and>
   dialog_annotation_serializer env_overload invite_ax = None \<and>
   is_request_msg invite_ax \<and>
   push_targets (fst (distributor env_overload invite_ax)) = [] \<and>
   transmissions (fst (distributor env_overload invite_ax)) = []"
proof -
  have a: "overload_alert env_overload"
    by (simp add: overload_alert_def env_overload_def env_idle_def)
  have b: "dialog_annotation_serializer env_overload ok_unmatched = None"
    by (simp add: dialog_annotation_serializer_def spec_find_dialog_def env_overload_def
        env_idle_def ok_unmatched_def)
  have c: "transaction_serializer env_overload ok_unmatched = None"
    by (simp add: transaction_serializer_def env_overload_def env_idle_def)
  have d: "\<not> is_request_msg ok_unmatched"
    "\<not> req_method_is ok_unmatched PJSIP_BYE_METHOD"
    "\<not> req_method_is ok_unmatched PJSIP_CANCEL_METHOD"
    by (simp_all add: is_request_msg_def req_method_is_def ok_unmatched_def)
  have b': "dialog_annotation_serializer env_overload invite_ax = None"
    by (simp add: dialog_annotation_serializer_def spec_find_dialog_def env_overload_def
        env_idle_def invite_ax_def)
  have d': "is_request_msg invite_ax"
    "\<not> req_method_is invite_ax PJSIP_BYE_METHOD"
    "\<not> req_method_is invite_ax PJSIP_CANCEL_METHOD"
    by (simp_all add: is_request_msg_def req_method_is_def invite_ax_def)
  have response: "push_targets (fst (distributor env_overload ok_unmatched)) = [] \<and>
                  transmissions (fst (distributor env_overload ok_unmatched)) = []"
    using overload_shedding [OF a b] c d by simp
  have request: "push_targets (fst (distributor env_overload invite_ax)) = [] \<and>
                 transmissions (fst (distributor env_overload invite_ax)) = []"
    using overload_shedding [OF a b'] d' by simp
  from a b c d(1) b' d'(1) response request show ?thesis
    by simp
qed

text \<open>
  C2 as stated (under overload such a message causes no outbound transmission) fails for
  a BYE of an unknown call: the hook answers it with a stateless 481.
\<close>

theorem overload_bye_counterexample:
  "overload_alert env_overload \<and>
   dialog_annotation_serializer env_overload bye_unknown = None \<and>
   transaction_serializer env_overload bye_unknown = None \<and>
   transmissions (fst (distributor env_overload bye_unknown)) = [Respond_stateless 481]"
  by (simp add: overload_alert_def env_overload_def env_idle_def bye_unknown_def
      dialog_annotation_serializer_def spec_find_dialog_def transaction_serializer_def
      find_dialog_def distributor_def is_request_msg_def req_method_is_def
      is_transmission_def ao2_bump_tps_def PJ_TRUE_def)

text \<open>
  When the push fails on a buffer that was cloned, the endpoint reference on the clone is
  released, the clone is freed and the serializer reference is released.
\<close>

lemma distributor_push_enqueue_failure:
  assumes "rx_data_clone env rdata = Some c"
    and "clone = (case dist of None \<Rightarrow> c | Some d \<Rightarrow> c\<lparr>endpt_mod_data := endpoint d\<rparr>)"
    and "sip_push_task env target (Cloned clone) \<noteq> 0"
  shows "distributor_push env rdata dist target =
           (case dist of None \<Rightarrow> [] | Some d \<Rightarrow> ao2_bump (endpoint d))
           @ [Push_task target (Cloned clone)]
           @ ao2_cleanup (endpt_mod_data clone)
           @ [Rx_data_free_cloned (Cloned clone)]
           @ ast_taskprocessor_unreference target"
  using assms
  by (cases dist)
    (simp_all add: distributor_push_def clone_store_endpoint_def clone_load_endpoint_def
      Let_def)

text \<open>
  C3: when cloning the receive buffer or pushing the task fails, the endpoint reference is
  released, the clone is freed, the message is dropped without a push, the serializer
  reference is released, and no invalid clone is dereferenced.  The run below is a request
  on an annotated dialog in a system where \<open>pjsip_rx_data_clone\<close> fails: the hook takes
  a reference to the dialog's endpoint, stores it through the uninitialised \<open>clone\<close>,
  pushes the task with that pointer and never releases the endpoint reference.
\<close>

theorem clone_failure_trace:
  "fst (distributor env_clone_fails invite_in_dialog) =
     [Taskprocessor_ref (Taskprocessor ''pjsip/session''),
      Ao2_ref (Sorcery_endpoint ''alice''),
      Invalid_clone_access,
      Push_task (Some (Taskprocessor ''pjsip/session'')) Uninitialised,
      Taskprocessor_unreference (Taskprocessor ''pjsip/session'')]"
  by (simp add: distributor_def distributor_push_def env_clone_fails_def env_idle_def
      invite_in_dialog_def dlg_annotated_def find_dialog_def is_request_msg_def
      req_method_is_def ao2_bump_tps_def ao2_bump_def clone_store_endpoint_def
      ast_taskprocessor_unreference_def)

subsection \<open>The authenticator and the endpoint identifier\<close>

text \<open>The authenticator releases the endpoint reference it takes, on every path.\<close>

lemma authenticate_reference_balance:
  "count_list (fst (authenticate env rdata)) (Ao2_ref e)
     = count_list (fst (authenticate env rdata)) (Ao2_cleanup e)"
  by (simp add: authenticate_def ast_pjsip_rdata_get_endpoint_def ao2_cleanup_def Let_def
      split: option.splits ast_sip_check_auth_result.splits)

text \<open>The reported name stops at a zero byte of the From user.\<close>

lemma c_string_example:
  "c_string (ast_copy_pj_str [CHR ''a'', CHR ''b'', CHR 0x00, CHR ''c'', CHR ''d''] AST_UUID_STR_LEN)
     = ''ab''"
  by (simp add: c_string_def ast_copy_pj_str_def AST_UUID_STR_LEN_def)

text \<open>An INVITE of an unknown peer gets the artificial endpoint and is challenged.\<close>

lemma unknown_invite_example:
  "endpoint_lookup env_idle invite_ax =
     ([Ao2_ref Artificial_endpoint, Log_unidentified_request, Report_invalid_endpoint ''mallory''],
      invite_ax\<lparr>endpt_mod_data := Some Artificial_endpoint\<rparr>, PJ_FALSE) \<and>
   authenticate env_idle (invite_ax\<lparr>endpt_mod_data := Some Artificial_endpoint\<rparr>) =
     ([Ao2_ref Artificial_endpoint, Endpt_create_response 401, Report_auth_challenge_sent,
       Endpt_send_response2, Ao2_cleanup Artificial_endpoint], PJ_TRUE)"
  by (simp add: endpoint_lookup_def authenticate_def ast_pjsip_rdata_get_endpoint_def
      env_idle_def invite_ax_def req_method_is_def ast_copy_pj_str_def AST_UUID_STR_LEN_def
      c_string_def ao2_cleanup_def)

text \<open>
  C5: for a non-ACK request whose endpoint requires authentication the authenticator
  builds a 401 and follows the verdict: CHALLENGE sends it and consumes; SUCCESS discards
  it and does not consume; FAILED sends it and consumes; ERROR discards it, replies with a
  stateless 500 and consumes.  For an ACK, and for a request whose endpoint does not
  require authentication, it takes no step and does not consume.
\<close>

theorem authenticate_verdicts:
  "(let (evs, consumed) = authenticate env rdata;
        ep = endpt_mod_data rdata
    in if req_method_is rdata PJSIP_ACK_METHOD \<or> \<not> sip_requires_authentication env ep rdata
       then auth_actions evs = [] \<and> consumed = PJ_FALSE
       else (case sip_check_authentication env ep rdata of
               AST_SIP_AUTHENTICATION_CHALLENGE \<Rightarrow>
                 auth_actions evs = [Endpt_create_response 401, Report_auth_challenge_sent,
                                     Endpt_send_response2] \<and> consumed = PJ_TRUE
             | AST_SIP_AUTHENTICATION_SUCCESS \<Rightarrow>
                 auth_actions evs = [Endpt_create_response 401, Report_auth_success,
                                     Tx_data_dec_ref] \<and> consumed = PJ_FALSE
             | AST_SIP_AUTHENTICATION_FAILED \<Rightarrow>
                 auth_actions evs = [Endpt_create_response 401,
                                     Report_auth_failed_challenge_response,
                                     Endpt_send_response2] \<and> consumed = PJ_TRUE
             | AST_SIP_AUTHENTICATION_ERROR \<Rightarrow>
                 auth_actions evs = [Endpt_create_response 401,
                                     Report_auth_failed_challenge_response,
                                     Tx_data_dec_ref, Respond_stateless 500]
                 \<and> consumed = PJ_TRUE))"
  by (simp add: authenticate_def ast_pjsip_rdata_get_endpoint_def auth_actions_def
      is_auth_action_def ao2_cleanup_def PJ_TRUE_def PJ_FALSE_def Let_def
      split: option.splits ast_sip_check_auth_result.splits)

text \<open>
  C6: for an ACK whose endpoint cannot be identified (none attached, the identifier
  returns null) the endpoint identifier attaches null and not the artificial endpoint,
  writes no log and reports no security event, lets the pipeline continue, and the
  authenticator then builds and sends no 401.
\<close>

theorem ack_unidentified:
  assumes "req_method_is rdata PJSIP_ACK_METHOD"
    and "endpt_mod_data rdata = None"
    and "sip_identify_endpoint env rdata = None"
  shows "endpoint_lookup env rdata = ([], rdata\<lparr>endpt_mod_data := None\<rparr>, PJ_FALSE) \<and>
         auth_actions (fst (authenticate env (fst (snd (endpoint_lookup env rdata))))) = [] \<and>
         snd (authenticate env (fst (snd (endpoint_lookup env rdata)))) = PJ_FALSE"
  using assms
  by (simp add: endpoint_lookup_def authenticate_def ast_pjsip_rdata_get_endpoint_def
      auth_actions_def is_auth_action_def ao2_cleanup_def req_method_is_def PJ_FALSE_def)

theorem ack_unidentified_witness:
  "req_method_is ack_unknown PJSIP_ACK_METHOD \<and>
   endpt_mod_data ack_unknown = None \<and>
   sip_identify_endpoint env_idle ack_unknown = None \<and>
   endpoint_lookup env_idle ack_unknown = ([], ack_unknown, PJ_FALSE) \<and>
   auth_actions (fst (authenticate env_idle ack_unknown)) = [] \<and>
   snd (authenticate env_idle ack_unknown) = PJ_FALSE"
proof -
  have a: "req_method_is ack_unknown PJSIP_ACK_METHOD"
    by (simp add: req_method_is_def ack_unknown_def)
  have b: "endpt_mod_data ack_unknown = None"
    by (simp add: ack_unknown_def)
  have c: "sip_identify_endpoint env_idle ack_unknown = None"
    by (simp add: env_idle_def)
  have d: "ack_unknown\<lparr>endpt_mod_data := None\<rparr> = ack_unknown"
    by (simp add: ack_unknown_def)
  note r = ack_unidentified [OF a b c]
  from r d have e: "endpoint_lookup env_idle ack_unknown = ([], ack_unknown, PJ_FALSE)"
    by simp
  from r e a b c show ?thesis
    by simp
qed

text \<open>
  C10: for every request that reaches \<open>authenticate\<close> after the endpoint identifier the
  endpoint in the slot is non-null, so that \<open>ast_assert(endpoint != NULL)\<close> holds, ACK
  included.  For the ACK of an unknown peer the identifier leaves the slot null and the
  asserted condition is false.
\<close>

theorem ack_assertion_fails:
  "fst (snd (endpoint_lookup env_idle ack_unknown)) = ack_unknown \<and>
   endpt_mod_data ack_unknown = None \<and>
   authenticate env_idle ack_unknown = ([Assert_failed], PJ_FALSE)"
  by (simp add: endpoint_lookup_def authenticate_def ast_pjsip_rdata_get_endpoint_def
      ao2_cleanup_def req_method_is_def env_idle_def ack_unknown_def)

subsection \<open>The distribute task\<close>

lemma count_list_ao2_cleanup:
  "count_list (ao2_cleanup slot) (Ao2_cleanup e) = (if slot = Some e then 1 else 0)"
  by (simp add: ao2_cleanup_def split: option.splits)

lemma count_list_ao2_cleanup_free:
  "count_list (ao2_cleanup slot) (Rx_data_free_cloned p) = 0"
  by (simp add: ao2_cleanup_def split: option.splits)

text \<open>An OPTIONS that no module handles: 501, release, free.\<close>

lemma distribute_example:
  "distribute env_idle options_cloned =
     ([Endpt_process_rx_data Distributor_mod 1, Respond_stateless 501,
       Ao2_cleanup (Sorcery_endpoint ''alice''), Rx_data_free_cloned (Cloned options_cloned)], 0)"
  by (simp add: distribute_def env_idle_def options_cloned_def is_request_msg_def
      req_method_is_def ao2_cleanup_def)

text \<open>
  C7: the task hands the buffer to the pipeline starting after the distributor module
  (\<open>start_mod = distributor_mod\<close>, \<open>idx_after_start = 1\<close>); it sends a stateless 501
  exactly when the pipeline did not handle a request other than ACK; and when it returns,
  the endpoint reference on the buffer has been released exactly once and the buffer has
  been freed, once, as the last step.
\<close>

theorem distribute_task:
  "(let (handled, rdata') = endpt_process_rx_data env rdata;
        evs = fst (distribute env rdata)
    in hd evs = Endpt_process_rx_data Distributor_mod 1 \<and>
       transmissions evs =
         (if \<not> handled \<and> is_request_msg rdata \<and> \<not> req_method_is rdata PJSIP_ACK_METHOD
          then [Respond_stateless 501] else []) \<and>
       (\<forall>e. count_list evs (Ao2_cleanup e) = (if endpt_mod_data rdata' = Some e then 1 else 0)) \<and>
       (\<forall>p. count_list evs (Rx_data_free_cloned p) = (if p = Cloned rdata' then 1 else 0)) \<and>
       last evs = Rx_data_free_cloned (Cloned rdata'))"
  by (simp add: distribute_def case_prod_beta Let_def is_transmission_def
      count_list_ao2_cleanup count_list_ao2_cleanup_free)

subsection \<open>Recording the serializer name\<close>

text \<open>
  C8: with a current serializer whose name is non-empty and differs from the name stored
  on the transmit buffer, the name is copied into the buffer's pool and stored in the
  slot; when the stored name is the current serializer's name nothing is allocated and
  the buffer is unchanged; the function always returns success.
\<close>

theorem record_serializer_effect:
  "snd (record_serializer env tdata) = PJ_SUCCESS \<and>
   (\<forall>s. threadpool_serializer_get_current env = Some s
        \<and> ast_taskprocessor_name s \<noteq> []
        \<and> tx_mod_data tdata \<noteq> Some (ast_taskprocessor_name s)
      \<longrightarrow> fst (record_serializer env tdata) =
            tdata\<lparr>tx_pool_allocs := tx_pool_allocs tdata @ [length (ast_taskprocessor_name s) + 1],
                  tx_mod_data := Some (ast_taskprocessor_name s)\<rparr>) \<and>
   (\<forall>s. threadpool_serializer_get_current env = Some s
        \<and> tx_mod_data tdata = Some (ast_taskprocessor_name s)
      \<longrightarrow> fst (record_serializer env tdata) = tdata)"
  by (auto simp add: record_serializer_def ast_strlen_zero_def Let_def
      split: option.splits)

theorem record_serializer_effect_witness:
  "threadpool_serializer_get_current env_idle = Some (Taskprocessor ''wrk-7'') \<and>
   ast_taskprocessor_name (Taskprocessor ''wrk-7'') \<noteq> [] \<and>
   tx_mod_data tdata_fresh \<noteq> Some (ast_taskprocessor_name (Taskprocessor ''wrk-7'')) \<and>
   record_serializer env_idle tdata_fresh =
     (\<lparr>tx_mod_data = Some ''wrk-7'', tx_pool_allocs = [6]\<rparr>, PJ_SUCCESS) \<and>
   tx_mod_data tdata_recorded = Some (ast_taskprocessor_name (Taskprocessor ''wrk-7'')) \<and>
   record_serializer env_idle tdata_recorded = (tdata_recorded, PJ_SUCCESS)"
proof -
  have cur: "threadpool_serializer_get_current env_idle = Some (Taskprocessor ''wrk-7'')"
    by (simp add: env_idle_def)
  have fresh: "tx_mod_data tdata_fresh \<noteq> Some (ast_taskprocessor_name (Taskprocessor ''wrk-7''))"
    by (simp add: tdata_fresh_def)
  have rec: "tx_mod_data tdata_recorded = Some (ast_taskprocessor_name (Taskprocessor ''wrk-7''))"
    by (simp add: tdata_recorded_def)
  have six: "Suc (Suc (Suc (Suc (Suc (Suc 0))))) = 6"
    by simp
  note a = record_serializer_effect [of env_idle tdata_fresh]
  note b = record_serializer_effect [of env_idle tdata_recorded]
  from a cur fresh
  have 1: "record_serializer env_idle tdata_fresh =
             (\<lparr>tx_mod_data = Some ''wrk-7'', tx_pool_allocs = [6]\<rparr>, PJ_SUCCESS)"
    by (simp add: prod_eq_iff tdata_fresh_def six)
  from b cur rec
  have 2: "record_serializer env_idle tdata_recorded = (tdata_recorded, PJ_SUCCESS)"
    by (simp add: prod_eq_iff)
  from 1 2 cur fresh rec show ?thesis
    by simp
qed

subsection \<open>The dialog annotation\<close>


end
